theory Spec2Isabelle
  imports Main "HOL-Library.Word"
begin

section \<open>The websocket client of ws/client.go\<close>

text \<open>
  A shallow embedding of the \<open>client\<close> type of package \<open>ws\<close> and of its methods.
  Every method takes the client and returns the updated client. What the Go runtime and
  the libraries decide (the result of a dial, the value drawn by \<open>rand.Intn\<close>, which
  case of a \<open>select\<close> fires) is an explicit input. Logging calls have no effect on the
  client and are left out.
\<close>

subsection \<open>Machine integers and durations\<close>

text \<open>
  Go's \<open>int\<close> on a 64-bit platform and \<open>time.Duration\<close> (an \<open>int64\<close> count of
  nanoseconds) are 64-bit two's complement values: arithmetic wraps, comparisons read
  them through \<open>sint\<close>.
\<close>

type_synonym goint = "64 word"
type_synonym Duration = "64 word"

definition Second :: Duration where
  "Second = 1000000000"

text \<open>
  \<open>rand.Intn(n)\<close> panics when \<open>n <= 0\<close> and otherwise returns a value of \<open>[0, n)\<close>.
  The generator's raw draw is the second argument.
\<close>

definition rand_Intn :: "goint \<Rightarrow> nat \<Rightarrow> goint option" where
  "rand_Intn n raw =
     (if sint n \<le> 0 then None else Some (word_of_nat (raw mod nat (sint n))))"

subsection \<open>Errors\<close>

record HttpConnectionError =
  Message :: string
  HttpStatus :: string
  HttpCode :: int
  Details :: string

text \<open>
  An error value is a plain message (what \<open>fmt.Errorf\<close> without a wrapped error and
  the libraries return), an \<open>HttpConnectionError\<close>, or the wrapper built by
  \<open>fmt.Errorf("reconnection failed: %w", err)\<close>.
\<close>

datatype goerror =
    ErrorString string
  | HttpError HttpConnectionError
  | ReconnectionFailed goerror

subsection \<open>Channels\<close>

text \<open>
  A buffered channel is its queue of undelivered values, its capacity and its closed flag.
  A nil channel is \<open>None\<close>.
\<close>

record 'a chan =
  buf :: "'a list"
  cap :: nat
  closed :: bool

definition make_chan :: "nat \<Rightarrow> 'a chan" where
  "make_chan n = \<lparr>buf = [], cap = n, closed = False\<rparr>"

datatype 'a send_result = Sent "'a chan" | SendBlocks | SendPanics

text \<open>
  A send on a nil channel blocks forever, a send on a closed channel panics, a send on a
  channel whose buffer is full blocks until a receiver takes a value.
\<close>

definition chan_send :: "'a chan option \<Rightarrow> 'a \<Rightarrow> 'a send_result" where
  "chan_send chO v =
     (case chO of
        None \<Rightarrow> SendBlocks
      | Some ch \<Rightarrow>
          if closed ch then SendPanics
          else if length (buf ch) < cap ch then Sent (ch\<lparr>buf := buf ch @ [v]\<rparr>)
          else SendBlocks)"

text \<open>
  A receive can proceed when a value is buffered or the channel is closed; on a nil channel
  it never can.
\<close>

definition recv_ready :: "'a chan option \<Rightarrow> bool" where
  "recv_ready chO =
     (case chO of
        None \<Rightarrow> False
      | Some ch \<Rightarrow> (case buf ch of [] \<Rightarrow> closed ch | v # vs \<Rightarrow> True))"

text \<open>A receive that can proceed takes the oldest buffered value, if there is one.\<close>

definition chan_recv :: "'a chan \<Rightarrow> 'a chan" where
  "chan_recv ch = ch\<lparr>buf := tl (buf ch)\<rparr>"

subsection \<open>Outcomes of a call\<close>

text \<open>A call returns, blocks on a channel operation that cannot proceed, or panics.\<close>

datatype 'a outcome = Returns 'a | Blocked | Panic

subsection \<open>The dialer and the HTTP header\<close>

datatype tls_Config = TLSConfig nat

record Dialer =
  ReadBufferSize :: int
  WriteBufferSize :: int
  DialerHandshakeTimeout :: Duration
  Subprotocols :: "string list"
  TLSClientConfig :: "tls_Config option"

type_synonym Header = "string \<rightharpoonup> string list"

text \<open>
  \<open>http.Header.Set\<close> stores the single value under the canonical form of the key
  (\<open>textproto.CanonicalMIMEHeaderKey\<close>): a key made of token bytes only gets an
  upper-case first letter and an upper-case letter after each hyphen, all other letters
  lower-case; any other key is left as it is.
\<close>

definition validHeaderFieldByte :: "char \<Rightarrow> bool" where
  "validHeaderFieldByte c =
     (let n = (of_char c :: nat) in
        (48 \<le> n \<and> n \<le> 57) \<or> (65 \<le> n \<and> n \<le> 90) \<or> (97 \<le> n \<and> n \<le> 122) \<or>
        n \<in> {33, 35, 36, 37, 38, 39, 42, 43, 45, 46, 94, 95, 96, 124, 126})"

fun canonicalize :: "bool \<Rightarrow> string \<Rightarrow> string" where
  "canonicalize upper [] = []"
| "canonicalize upper (c # cs) =
     (let n = (of_char c :: nat);
          c' = (if upper \<and> 97 \<le> n \<and> n \<le> 122 then char_of (n - 32)
                else if \<not> upper \<and> 65 \<le> n \<and> n \<le> 90 then char_of (n + 32)
                else c)
      in c' # canonicalize (c' = CHR ''-'') cs)"

definition CanonicalMIMEHeaderKey :: "string \<Rightarrow> string" where
  "CanonicalMIMEHeaderKey s = (if list_all validHeaderFieldByte s then canonicalize True s else s)"

definition Header_Set :: "Header \<Rightarrow> string \<Rightarrow> string \<Rightarrow> Header" where
  "Header_Set h key val = h(CanonicalMIMEHeaderKey key \<mapsto> [val])"

text \<open>\<open>http.Header.Get\<close>: the first value stored under the canonical key, or the empty string.\<close>

definition Header_Get :: "Header \<Rightarrow> string \<Rightarrow> string" where
  "Header_Get h key =
     (case h (CanonicalMIMEHeaderKey key) of
        None \<Rightarrow> []
      | Some [] \<Rightarrow> []
      | Some (v # vs) \<Rightarrow> v)"

subsection \<open>Standard base64\<close>

text \<open>
  \<open>base64.StdEncoding.EncodeToString\<close>: the alphabet of RFC 4648, three bytes to four
  characters, the remainder of one or two bytes padded with \<open>=\<close>.
\<close>

definition encodeStd :: string where
  "encodeStd = ''ABCDEFGHIJKLMNOPQRSTUVWXYZabcdefghijklmnopqrstuvwxyz0123456789+/''"

definition enc :: "nat \<Rightarrow> char" where
  "enc v = encodeStd ! (v mod 64)"

fun Encode :: "nat list \<Rightarrow> string" where
  "Encode (a # b # c # rest) =
     (let val = a * 65536 + b * 256 + c in
        [enc (val div 262144), enc (val div 4096), enc (val div 64), enc val] @ Encode rest)"
| "Encode [a, b] =
     (let val = a * 65536 + b * 256 in
        [enc (val div 262144), enc (val div 4096), enc (val div 64), CHR ''=''])"
| "Encode [a] =
     (let val = a * 65536 in
        [enc (val div 262144), enc (val div 4096), CHR ''='', CHR ''=''])"
| "Encode [] = []"

definition EncodeToString :: "string \<Rightarrow> string" where
  "EncodeToString src = Encode (map of_char src)"

subsection \<open>Paths and URLs\<close>

text \<open>
  \<open>path.Base\<close>: the last element of a path; trailing slashes are removed first, the
  empty path gives \<open>.\<close> and a path of slashes only gives \<open>/\<close>.
\<close>

definition path_Base :: "string \<Rightarrow> string" where
  "path_Base p =
     (if p = [] then ''.''
      else (let stripped = rev (dropWhile (\<lambda>c. c = CHR ''/'') (rev p));
                last_elem = rev (takeWhile (\<lambda>c. c \<noteq> CHR ''/'') (rev stripped))
            in if last_elem = [] then ''/'' else last_elem))"

text \<open>Of a parsed \<open>url.URL\<close> the client reads the path and the result of \<open>String()\<close>.\<close>

record URL =
  Path :: string
  url_String :: string

subsection \<open>The timeout configuration\<close>

record ClientTimeoutConfig =
  WriteWait :: Duration
  HandshakeTimeout :: Duration
  PongWait :: Duration
  PingPeriod :: Duration
  RetryBackOffRepeatTimes :: goint
  RetryBackOffRandomRange :: goint
  RetryBackOffWaitMinimum :: Duration

subsection \<open>The session\<close>

text \<open>
  Modelled from the spec: the \<open>webSocket\<close> type and its methods \<open>IsConnected\<close>,
  \<open>Write\<close>, \<open>Close\<close> and the constructor \<open>newWebSocket\<close> are not among the source
  files. The spec's Session has an id, the underlying frame channel, TLS connection
  metadata (nil for plaintext), an outbound queue and a closed flag; the three callbacks
  are methods of the client and need no field here. The spec's Session "emits exactly one
  disconnect notification" after it "transitions to closed exactly once": \<open>notification\<close>
  holds that notification, with the error it carries, from the transition until it is
  delivered to the client's disconnect callback.
\<close>

record webSocket =
  ws_id :: string
  connection :: nat
  tlsState :: "nat option"
  ws_closed :: bool
  outQueue :: "string list"
  outQueueCap :: nat
  notification :: "goerror option option"

text \<open>
  Modelled from the spec: the error values of the session are missing; the spec names the
  kinds \<open>NotConnected\<close> and \<open>QueueOverflow\<close>.
\<close>

definition ErrNotConnected :: goerror where
  "ErrNotConnected = ErrorString ''NotConnected''"

definition ErrQueueOverflow :: goerror where
  "ErrQueueOverflow = ErrorString ''QueueOverflow''"

text \<open>
  Modelled from the spec: \<open>webSocket.IsConnected\<close> is missing; the spec says it
  "reports whether the closed flag is false".
\<close>

definition ws_IsConnected :: "webSocket \<Rightarrow> bool" where
  "ws_IsConnected w = (\<not> ws_closed w)"

text \<open>
  Modelled from the spec: \<open>webSocket.Write\<close> is missing; the spec says it "enqueues onto
  the outbound queue", "fails with NotConnected if the closed flag is set" and fails "the
  write with a queue-overflow error" when the bounded queue is full.
\<close>

definition ws_Write :: "webSocket \<Rightarrow> string \<Rightarrow> goerror option \<times> webSocket" where
  "ws_Write w data =
     (if ws_closed w then (Some ErrNotConnected, w)
      else if outQueueCap w \<le> length (outQueue w) then (Some ErrQueueOverflow, w)
      else (None, w\<lparr>outQueue := outQueue w @ [data]\<rparr>))"

text \<open>
  Modelled from the spec: \<open>webSocket.Close\<close> is missing; the spec says it "initiates
  graceful shutdown", is "idempotent: second call is a no-op", and that the Session
  "transitions to closed exactly once, triggered either by external Close or by any internal
  task detecting an error". Of the closure that \<open>Stop\<close> initiates with the normal-closure
  code the spec says that it "does not invoke the disconnect callback's non-nil-error path":
  the notification of a session closed by \<open>Close\<close> carries the nil error. The error that
  \<open>Close\<close> returns to the caller is an input.
\<close>

definition ws_Close :: "goerror option \<Rightarrow> webSocket \<Rightarrow> goerror option \<times> webSocket" where
  "ws_Close result w =
     (result, if ws_closed w then w else w\<lparr>ws_closed := True, notification := Some None\<rparr>)"

text \<open>
  Modelled from the spec: the reader, writer and pinger tasks of the session are missing;
  the spec says that "any frame-level error is fatal to the Session", that a task which
  detects an error "marks the Session closed (if not already), records the error" and
  "invokes the disconnect callback", and that the callback is "invoked exactly once,
  carrying the first-observed error". A failure of a task on a session that is already
  closed changes nothing.
\<close>

definition ws_fail :: "goerror \<Rightarrow> webSocket \<Rightarrow> webSocket" where
  "ws_fail err w =
     (if ws_closed w then w else w\<lparr>ws_closed := True, notification := Some (Some err)\<rparr>)"

text \<open>
  Modelled from the spec: \<open>newWebSocket\<close> and \<open>run\<close> are missing; the spec says the
  Session is "created upon successful handshake", not closed, with an empty bounded queue.
\<close>

definition newWebSocket :: "string \<Rightarrow> nat \<Rightarrow> nat option \<Rightarrow> nat \<Rightarrow> webSocket" where
  "newWebSocket ident ws tls qcap =
     \<lparr>ws_id = ident, connection = ws, tlsState = tls, ws_closed = False,
      outQueue = [], outQueueCap = qcap, notification = None\<rparr>"

subsection \<open>The client\<close>

text \<open>
  The fields of \<open>client\<close>. A dial option is a function on the dialer, \<open>None\<close> for a nil
  function value. The user's disconnect and reconnect callbacks are known by a handle:
  what they do is outside the client, that they are called is recorded as an event.
\<close>

record client =
  webSocket :: "webSocket option"
  url :: URL
  messageHandler :: "(string \<Rightarrow> goerror option) option"
  dialOptions :: "(Dialer \<Rightarrow> Dialer) option list"
  header :: Header
  timeoutConfig :: ClientTimeoutConfig
  onDisconnected :: "nat option"
  onReconnected :: "nat option"
  errC :: "goerror chan option"
  reconnectC :: "unit chan option"

text \<open>\<open>NewClientTimeoutConfig\<close> is not among the source files: its result is a parameter.\<close>

definition NewClient :: "ClientTimeoutConfig \<Rightarrow> client" where
  "NewClient defaultConfig =
     \<lparr>webSocket = None, url = \<lparr>Path = [], url_String = []\<rparr>, messageHandler = None,
      dialOptions = [], header = Map.empty, timeoutConfig = defaultConfig,
      onDisconnected = None, onReconnected = None, errC = None,
      reconnectC = Some (make_chan 1)\<rparr>"

definition NewTLSClient :: "ClientTimeoutConfig \<Rightarrow> tls_Config option \<Rightarrow> client" where
  "NewTLSClient defaultConfig tlsConfig =
     (let c = \<lparr>webSocket = None, url = \<lparr>Path = [], url_String = []\<rparr>, messageHandler = None,
               dialOptions = [], header = Map.empty, timeoutConfig = defaultConfig,
               onDisconnected = None, onReconnected = None, errC = None,
               reconnectC = Some (make_chan 1)\<rparr>
      in c\<lparr>dialOptions := dialOptions c @
              [Some (\<lambda>dialer. dialer\<lparr>TLSClientConfig := tlsConfig\<rparr>)]\<rparr>)"

definition SetMessageHandler :: "(string \<Rightarrow> goerror option) option \<Rightarrow> client \<Rightarrow> client" where
  "SetMessageHandler handler c = c\<lparr>messageHandler := handler\<rparr>"

definition SetTimeoutConfig :: "ClientTimeoutConfig \<Rightarrow> client \<Rightarrow> client" where
  "SetTimeoutConfig config c = c\<lparr>timeoutConfig := config\<rparr>"

definition SetDisconnectedHandler :: "nat option \<Rightarrow> client \<Rightarrow> client" where
  "SetDisconnectedHandler handler c = c\<lparr>onDisconnected := handler\<rparr>"

definition SetReconnectedHandler :: "nat option \<Rightarrow> client \<Rightarrow> client" where
  "SetReconnectedHandler handler c = c\<lparr>onReconnected := handler\<rparr>"

text \<open>
  The argument of \<open>AddOption\<close> is an \<open>interface{}\<close>: a value of the function type
  \<open>func(*websocket.Dialer)\<close> (possibly the nil function), the nil interface, or a value
  of any other type, kept here by a description. The type assertion succeeds for the
  first kind only.
\<close>

datatype go_value =
    DialerFunc "(Dialer \<Rightarrow> Dialer) option"
  | NilInterface
  | OtherValue string

definition AddOption :: "go_value \<Rightarrow> client \<Rightarrow> client" where
  "AddOption option c =
     (case option of
        DialerFunc dialOption \<Rightarrow> c\<lparr>dialOptions := dialOptions c @ [dialOption]\<rparr>
      | _ \<Rightarrow> c)"

text \<open>The loop of the option built by \<open>SetRequestedSubProtocol\<close>, with its \<open>break\<close>.\<close>

fun alreadyExists :: "string \<Rightarrow> string list \<Rightarrow> bool" where
  "alreadyExists subProto [] = False"
| "alreadyExists subProto (proto # protos) =
     (if proto = subProto then True else alreadyExists subProto protos)"

definition subProtocolOption :: "string \<Rightarrow> Dialer \<Rightarrow> Dialer" where
  "subProtocolOption subProto dialer =
     (if \<not> alreadyExists subProto (Subprotocols dialer)
      then dialer\<lparr>Subprotocols := Subprotocols dialer @ [subProto]\<rparr>
      else dialer)"

definition SetRequestedSubProtocol :: "string \<Rightarrow> client \<Rightarrow> client" where
  "SetRequestedSubProtocol subProto c = AddOption (DialerFunc (Some (subProtocolOption subProto))) c"

definition SetBasicAuth :: "string \<Rightarrow> string \<Rightarrow> client \<Rightarrow> client" where
  "SetBasicAuth username password c =
     c\<lparr>header := Header_Set (header c) ''Authorization''
                    (''Basic '' @ EncodeToString (username @ '':'' @ password))\<rparr>"

definition SetHeaderValue :: "string \<Rightarrow> string \<Rightarrow> client \<Rightarrow> client" where
  "SetHeaderValue key val c = c\<lparr>header := Header_Set (header c) key val\<rparr>"

definition IsConnected :: "client \<Rightarrow> bool" where
  "IsConnected c = (case webSocket c of None \<Rightarrow> False | Some w \<Rightarrow> ws_IsConnected w)"

definition Write :: "string \<Rightarrow> client \<Rightarrow> goerror option \<times> client" where
  "Write data c =
     (if \<not> IsConnected c
      then (Some (ErrorString ''client is currently not connected, cannot send data''), c)
      else (case webSocket c of
              None \<Rightarrow> (Some (ErrorString ''client is currently not connected, cannot send data''), c)
            | Some w \<Rightarrow> (case ws_Write w data of (err, w') \<Rightarrow> (err, c\<lparr>webSocket := Some w'\<rparr>))))"

definition Errors :: "client \<Rightarrow> goerror chan \<times> client" where
  "Errors c =
     (case errC c of
        None \<Rightarrow> (make_chan 1, c\<lparr>errC := Some (make_chan 1)\<rparr>)
      | Some ch \<Rightarrow> (ch, c))"

definition handleMessage :: "string \<Rightarrow> client \<Rightarrow> goerror option" where
  "handleMessage data c =
     (case messageHandler c of
        Some handler \<Rightarrow> handler data
      | None \<Rightarrow> Some (ErrorString ''no message handler set''))"

text \<open>The method \<open>error\<close>: a send on the error channel when there is one.\<close>

definition error :: "goerror \<Rightarrow> client \<Rightarrow> client outcome" where
  "error err c =
     (case errC c of
        None \<Rightarrow> Returns c
      | Some ch \<Rightarrow>
          (case chan_send (Some ch) err of
             Sent ch' \<Rightarrow> Returns (c\<lparr>errC := Some ch'\<rparr>)
           | SendBlocks \<Rightarrow> Blocked
           | SendPanics \<Rightarrow> Panic))"

subsection \<open>Start\<close>

text \<open>
  Of the HTTP response of a failed or successful handshake the client reads the status
  text, the status code, the TLS state, and the body through \<open>io.ReadAll\<close>: \<open>Body\<close>
  is the slice that call returns, \<open>None\<close> for a nil slice.
\<close>

record response =
  Status :: string
  StatusCode :: int
  TLS :: "nat option"
  Body :: "string option"

text \<open>
  \<open>dialer.Dial\<close> returns a connection and the response, or an error of the websocket
  library, known by its message, and possibly the response of the server.
\<close>

datatype dial_result = DialOK nat response | DialFailed string "response option"

text \<open>
  What \<open>Start\<close> does not decide itself: the result of \<open>url.Parse\<close>, the answer of the
  network to a dial, and the bound of the session's outbound queue.
\<close>

record world =
  Parse :: "string \<Rightarrow> goerror + URL"
  Dial :: "Dialer \<Rightarrow> string \<Rightarrow> Header \<Rightarrow> dial_result"
  QueueCap :: nat

text \<open>Applying the dial options in order; calling a nil function panics.\<close>

fun apply_options :: "(Dialer \<Rightarrow> Dialer) option list \<Rightarrow> Dialer \<Rightarrow> Dialer option" where
  "apply_options [] dialer = Some dialer"
| "apply_options (None # options) dialer = None"
| "apply_options (Some option # options) dialer = apply_options options (option dialer)"

definition new_dialer :: "client \<Rightarrow> Dialer" where
  "new_dialer c =
     \<lparr>ReadBufferSize = 1024, WriteBufferSize = 1024,
      DialerHandshakeTimeout = HandshakeTimeout (timeoutConfig c),
      Subprotocols = [], TLSClientConfig = None\<rparr>"

definition Start :: "world \<Rightarrow> string \<Rightarrow> client \<Rightarrow> (goerror option \<times> client) outcome" where
  "Start w urlStr c =
     (case Parse w urlStr of
        Inl err \<Rightarrow> Returns (Some err, c)
      | Inr u \<Rightarrow>
          (let c1 = c\<lparr>url := u\<rparr>;
               c2 = (if reconnectC c1 = None then c1\<lparr>reconnectC := Some (make_chan 1)\<rparr> else c1)
           in case apply_options (dialOptions c2) (new_dialer c2) of
                None \<Rightarrow> Panic
              | Some dialer \<Rightarrow>
                  (case Dial w dialer urlStr (header c2) of
                     DialFailed msg None \<Rightarrow> Returns (Some (ErrorString msg), c2)
                   | DialFailed msg (Some resp) \<Rightarrow>
                       (let httpError = \<lparr>Message = msg, HttpStatus = Status resp,
                                         HttpCode = StatusCode resp, Details = []\<rparr>
                        in case Body resp of
                             None \<Rightarrow> Returns (Some (HttpError httpError), c2)
                           | Some body \<Rightarrow>
                               Returns (Some (HttpError (httpError\<lparr>Details := body\<rparr>)), c2))
                   | DialOK ws resp \<Rightarrow>
                       Returns (None,
                         c2\<lparr>webSocket :=
                              Some (newWebSocket (path_Base (Path u)) ws (TLS resp) (QueueCap w))\<rparr>))))"

subsection \<open>Stop\<close>

text \<open>
  \<open>Stop\<close> in its three steps. A \<open>select\<close> with one receive case and a \<open>default\<close>
  takes the receive when it can proceed and the default otherwise. The first argument is
  the error that the session's \<open>Close\<close> returns.
\<close>

definition Stop_session :: "goerror option \<Rightarrow> client \<Rightarrow> client outcome" where
  "Stop_session closeResult c =
     (if IsConnected c
      then (case webSocket c of
              None \<Rightarrow> Returns c
            | Some w \<Rightarrow>
                (case ws_Close closeResult w of
                   (None, w') \<Rightarrow> Returns (c\<lparr>webSocket := Some w'\<rparr>)
                 | (Some err, w') \<Rightarrow> error err (c\<lparr>webSocket := Some w'\<rparr>)))
      else Returns c)"

definition Stop_reconnectC :: "client \<Rightarrow> client outcome" where
  "Stop_reconnectC c =
     (if recv_ready (reconnectC c)
      then Returns (c\<lparr>reconnectC := map_option chan_recv (reconnectC c)\<rparr>)
      else (case chan_send (reconnectC c) () of
              Sent ch \<Rightarrow> Returns (c\<lparr>reconnectC := Some ch\<rparr>)
            | SendBlocks \<Rightarrow> Blocked
            | SendPanics \<Rightarrow> Panic))"

definition Stop_errC :: "client \<Rightarrow> client outcome" where
  "Stop_errC c =
     (if recv_ready (errC c)
      then Returns (c\<lparr>errC := map_option chan_recv (errC c)\<rparr>)
      else (case errC c of
              None \<Rightarrow> Returns c
            | Some ch \<Rightarrow> if closed ch then Panic else Returns (c\<lparr>errC := Some (ch\<lparr>closed := True\<rparr>)\<rparr>)))"

definition Stop :: "goerror option \<Rightarrow> client \<Rightarrow> client outcome" where
  "Stop closeResult c =
     (case Stop_session closeResult c of
        Returns c1 \<Rightarrow>
          (case Stop_reconnectC c1 of
             Returns c2 \<Rightarrow> Stop_errC c2
           | Blocked \<Rightarrow> Blocked
           | Panic \<Rightarrow> Panic)
      | Blocked \<Rightarrow> Blocked
      | Panic \<Rightarrow> Panic)"

subsection \<open>Reconnection\<close>

text \<open>
  What the client does in the reconnection loop and in the disconnect path, as far as it
  can be observed from outside: the timer it arms, the interruption, the result of each
  attempt, and the callbacks it calls.
\<close>

datatype event =
    Sleep Duration
  | Interrupted
  | Attempt "goerror option"
  | ReconnectedCallback nat
  | DisconnectedCallback nat "goerror option"

text \<open>
  One iteration of the loop meets: the case of the \<open>select\<close> that fires, the world the
  call of \<open>Start\<close> runs in, and whether the subscriber of the error channel has taken
  what was buffered there by the time the loop reports its own error.
\<close>

datatype wake = TimerFired | InterruptReceived

record attempt =
  Wake :: wake
  World :: world
  ErrorsDrained :: bool

definition drain :: "client \<Rightarrow> client" where
  "drain c = c\<lparr>errC := map_option (\<lambda>ch. ch\<lparr>buf := []\<rparr>) (errC c)\<rparr>"

text \<open>
  The result of the loop: it returned, it is still looping when the given iterations are
  used up, it is blocked in \<open>error\<close>, or it panicked.
\<close>

datatype run =
    Done client "event list"
  | Running client "event list"
  | RunBlocked
  | RunPanic

text \<open>
  The \<open>for\<close> loop of \<open>handleReconnection\<close>, with the local variables \<open>delay\<close> and
  \<open>reconnectionAttempts\<close>; \<open>rnd\<close> is the sequence of raw draws of the random generator
  and \<open>seed\<close> the position of the next one.
\<close>

fun reconnect_loop ::
  "(nat \<Rightarrow> nat) \<Rightarrow> attempt list \<Rightarrow> client \<Rightarrow> Duration \<Rightarrow> goint \<Rightarrow> nat \<Rightarrow> event list \<Rightarrow> run" where
  "reconnect_loop rnd [] c delay reconnectionAttempts seed log = Running c log"
| "reconnect_loop rnd (a # as) c delay reconnectionAttempts seed log =
     (if Wake a = InterruptReceived \<and> reconnectC c \<noteq> None
      then Done (c\<lparr>reconnectC := map_option chan_recv (reconnectC c)\<rparr>) (log @ [Interrupted])
      else
        (case Start (World a) (url_String (url c)) c of
           Blocked \<Rightarrow> RunBlocked
         | Panic \<Rightarrow> RunPanic
         | Returns (None, c1) \<Rightarrow>
             Done c1 (log @ [Sleep delay, Attempt None] @
                      (case onReconnected c1 of None \<Rightarrow> [] | Some h \<Rightarrow> [ReconnectedCallback h]))
         | Returns (Some err, c1) \<Rightarrow>
             (case error (ReconnectionFailed err) (if ErrorsDrained a then drain c1 else c1) of
                Blocked \<Rightarrow> RunBlocked
              | Panic \<Rightarrow> RunPanic
              | Returns c2 \<Rightarrow>
                  (if sint reconnectionAttempts < sint (RetryBackOffRepeatTimes (timeoutConfig c2))
                   then
                     (case rand_Intn (RetryBackOffRandomRange (timeoutConfig c2) + 1) (rnd seed) of
                        None \<Rightarrow> RunPanic
                      | Some r \<Rightarrow>
                          reconnect_loop rnd as c2 (delay * 2 + r * Second)
                            (reconnectionAttempts + 1) (Suc seed)
                            (log @ [Sleep delay, Attempt (Some err)]))
                   else
                     reconnect_loop rnd as c2 delay (reconnectionAttempts + 1) seed
                       (log @ [Sleep delay, Attempt (Some err)])))))"

definition handleReconnection :: "(nat \<Rightarrow> nat) \<Rightarrow> attempt list \<Rightarrow> client \<Rightarrow> run" where
  "handleReconnection rnd as c =
     (case rand_Intn (RetryBackOffRandomRange (timeoutConfig c) + 1) (rnd 0) of
        None \<Rightarrow> RunPanic
      | Some r \<Rightarrow>
          reconnect_loop rnd as c (RetryBackOffWaitMinimum (timeoutConfig c) + r * Second) 1 1 [])"

definition StartWithRetries ::
  "world \<Rightarrow> (nat \<Rightarrow> nat) \<Rightarrow> attempt list \<Rightarrow> string \<Rightarrow> client \<Rightarrow> run" where
  "StartWithRetries w rnd as urlStr c =
     (case Start w urlStr c of
        Blocked \<Rightarrow> RunBlocked
      | Panic \<Rightarrow> RunPanic
      | Returns (None, c1) \<Rightarrow> Done c1 []
      | Returns (Some err, c1) \<Rightarrow> handleReconnection rnd as c1)"

text \<open>The events of a run after the events that came before it.\<close>

fun after :: "event list \<Rightarrow> run \<Rightarrow> run" where
  "after pre (Done c log) = Done c (pre @ log)"
| "after pre (Running c log) = Running c (pre @ log)"
| "after pre RunBlocked = RunBlocked"
| "after pre RunPanic = RunPanic"

definition handleDisconnect :: "(nat \<Rightarrow> nat) \<Rightarrow> attempt list \<Rightarrow> goerror option \<Rightarrow> client \<Rightarrow> run" where
  "handleDisconnect rnd as err c =
     (let notified = (case onDisconnected c of
                        None \<Rightarrow> []
                      | Some h \<Rightarrow> [DisconnectedCallback h err])
      in case err of
           None \<Rightarrow> Done c notified
         | Some e \<Rightarrow> after notified (handleReconnection rnd as c))"

text \<open>The delays of the timers armed in a run, in order.\<close>

fun sleeps :: "event list \<Rightarrow> Duration list" where
  "sleeps [] = []"
| "sleeps (Sleep d # es) = d # sleeps es"
| "sleeps (e # es) = sleeps es"

fun events :: "run \<Rightarrow> event list" where
  "events (Done c log) = log"
| "events (Running c log) = log"
| "events RunBlocked = []"
| "events RunPanic = []"

subsection \<open>The session's events reaching the client\<close>

text \<open>
  Modelled from the spec: the code that calls the client's disconnect callback is in the
  missing session. What happens to a client over time, as far as its session is concerned:
  a task of the session fails with an error, or the session delivers its pending disconnect
  notification to \<open>handleDisconnect\<close>, which may run the reconnection loop over the given
  iterations. A delivery with no notification pending does nothing; a delivered notification
  is no longer pending.
\<close>

datatype session_event =
    TaskFails goerror
  | DisconnectDelivered "attempt list"

definition take_notification :: "client \<Rightarrow> (goerror option \<times> client) option" where
  "take_notification c =
     (case webSocket c of
        None \<Rightarrow> None
      | Some w \<Rightarrow>
          (case notification w of
             None \<Rightarrow> None
           | Some err \<Rightarrow> Some (err, c\<lparr>webSocket := Some (w\<lparr>notification := None\<rparr>)\<rparr>)))"

fun session_events :: "(nat \<Rightarrow> nat) \<Rightarrow> session_event list \<Rightarrow> client \<Rightarrow> event list \<Rightarrow> run" where
  "session_events rnd [] c log = Done c log"
| "session_events rnd (TaskFails err # es) c log =
     session_events rnd es (c\<lparr>webSocket := map_option (ws_fail err) (webSocket c)\<rparr>) log"
| "session_events rnd (DisconnectDelivered as # es) c log =
     (case take_notification c of
        None \<Rightarrow> session_events rnd es c log
      | Some (err, c1) \<Rightarrow>
          (case handleDisconnect rnd as err c1 of
             Done c2 log2 \<Rightarrow> session_events rnd es c2 (log @ log2)
           | Running c2 log2 \<Rightarrow> Running c2 (log @ log2)
           | RunBlocked \<Rightarrow> RunBlocked
           | RunPanic \<Rightarrow> RunPanic))"

subsection \<open>Derived notions and sample inputs\<close>

text \<open>
  The subprotocol list of the dialer that \<open>Start\<close> builds from the client's dial options,
  \<open>None\<close> when applying them panics.
\<close>

definition dialed_subprotocols :: "client \<Rightarrow> string list option" where
  "dialed_subprotocols c = map_option Subprotocols (apply_options (dialOptions c) (new_dialer c))"

text \<open>
  A timeout configuration for the concrete runs below: one second of minimal back-off, no
  jitter, growth of the delay up to the third attempt.
\<close>

definition scenarioConfig :: ClientTimeoutConfig where
  "scenarioConfig =
     \<lparr>WriteWait = 10 * Second, HandshakeTimeout = 30 * Second, PongWait = 2 * Second,
      PingPeriod = 1 * Second, RetryBackOffRepeatTimes = 3, RetryBackOffRandomRange = 0,
      RetryBackOffWaitMinimum = 1 * Second\<rparr>"

text \<open>
  Two worlds for the concrete runs: in the first, the server rejects the handshake with
  status 401 and the body \<open>bad creds\<close> (the second scenario of the spec); in the second it
  accepts the upgrade.
\<close>

definition rejectingWorld :: world where
  "rejectingWorld =
     \<lparr>Parse = (\<lambda>s. Inr \<lparr>Path = ''/ws/1234'', url_String = s\<rparr>),
      Dial = (\<lambda>dialer urlStr h. DialFailed ''websocket: bad handshake''
                (Some \<lparr>Status = ''401 Unauthorized'', StatusCode = 401, TLS = None,
                       Body = Some ''bad creds''\<rparr>)),
      QueueCap = 16\<rparr>"

definition acceptingWorld :: world where
  "acceptingWorld =
     \<lparr>Parse = (\<lambda>s. Inr \<lparr>Path = ''/ws/1234'', url_String = s\<rparr>),
      Dial = (\<lambda>dialer urlStr h. DialOK 7
                \<lparr>Status = ''101 Switching Protocols'', StatusCode = 101, TLS = None,
                 Body = None\<rparr>),
      QueueCap = 16\<rparr>"

text \<open>A client with a live session, and the same client once the session is closed.\<close>

definition connectedClient :: client where
  "connectedClient =
     (NewClient scenarioConfig)
       \<lparr>webSocket := Some (newWebSocket ''1234'' 7 None 16),
        url := \<lparr>Path = ''/ws/1234'', url_String = ''ws://localhost:8887/ws/1234''\<rparr>\<rparr>"

definition closedClient :: client where
  "closedClient =
     connectedClient\<lparr>webSocket := Some ((newWebSocket ''1234'' 7 None 16)\<lparr>ws_closed := True\<rparr>)\<rparr>"

text \<open>
  A new client whose user has subscribed to the error channel, and the same client once one
  error is buffered there and not yet received.
\<close>

definition subscribedClient :: client where
  "subscribedClient = snd (Errors (NewClient scenarioConfig))"

definition fullClient :: client where
  "fullClient =
     subscribedClient\<lparr>errC := Some \<lparr>buf = [ErrorString ''first''], cap = 1, closed = False\<rparr>\<rparr>"

text \<open>A new client on which \<open>Stop\<close> has been called once: an interrupt is pending.\<close>

definition stoppedClient :: client where
  "stoppedClient =
     (NewClient scenarioConfig)\<lparr>reconnectC := Some \<lparr>buf = [()], cap = 1, closed = False\<rparr>\<rparr>"

text \<open>A connected client with both callbacks set.\<close>

definition handlersClient :: client where
  "handlersClient = connectedClient\<lparr>onDisconnected := Some 1, onReconnected := Some 2\<rparr>"



text \<open>
  The delay of the timer armed before attempt \<open>k\<close> of a run, attempts counted from 1.
\<close>

definition delay_before :: "event list \<Rightarrow> nat \<Rightarrow> Duration" where
  "delay_before log k = sleeps log ! (k - 1)"

text \<open>
  The back-off law in the words of the spec, on the delays of consecutive attempts of which
  the first is attempt \<open>k\<close>: while the attempts so far are fewer than \<open>N\<close>, the next delay
  is the previous one times two plus a jitter of \<open>0\<close> to \<open>R\<close> seconds; otherwise the delay
  is kept.
\<close>

fun backoff_law :: "int \<Rightarrow> int \<Rightarrow> nat \<Rightarrow> Duration list \<Rightarrow> bool" where
  "backoff_law N R k (d # d' # ds) =
     ((if int k < N then (\<exists>j. 0 \<le> j \<and> j \<le> R \<and> d' = 2 * d + word_of_int j * Second)
       else d' = d) \<and>
      backoff_law N R (Suc k) (d' # ds))"
| "backoff_law N R k ds = True"

text \<open>The range of \<open>int64\<close>, in which a \<open>time.Duration\<close> holds the exact number.\<close>

definition fits64 :: "int \<Rightarrow> bool" where
  "fits64 n = (- (2 ^ 63) \<le> n \<and> n < 2 ^ 63)"

text \<open>A random generator whose every draw is 0.\<close>

definition noJitter :: "nat \<Rightarrow> nat" where
  "noJitter i = 0"

text \<open>An attempt whose timer fires and whose handshake the server rejects.\<close>

definition failingAttempt :: attempt where
  "failingAttempt = \<lparr>Wake = TimerFired, World = rejectingWorld, ErrorsDrained = False\<rparr>"

text \<open>
  The error of an attempt against the rejecting server, and the events of four failing
  attempts under \<open>scenarioConfig\<close>: the timers of the fourth scenario of the spec (1s, 2s,
  4s), then the same delay again.
\<close>

definition rejection :: goerror where
  "rejection =
     HttpError \<lparr>Message = ''websocket: bad handshake'', HttpStatus = ''401 Unauthorized'',
                HttpCode = 401, Details = ''bad creds''\<rparr>"

definition scenarioLog :: "event list" where
  "scenarioLog =
     [Sleep 1000000000, Attempt (Some rejection), Sleep 2000000000, Attempt (Some rejection),
      Sleep 4000000000, Attempt (Some rejection), Sleep 4000000000, Attempt (Some rejection)]"

text \<open>
  A configuration whose minimal back-off is \<open>2 ^ 62\<close> nanoseconds plus one second, the
  disconnected client with it, and the events of its four failing attempts: the double of
  the first delay is beyond the range of \<open>int64\<close>.
\<close>

definition overflowConfig :: ClientTimeoutConfig where
  "overflowConfig = scenarioConfig\<lparr>RetryBackOffWaitMinimum := 4611686019427387904\<rparr>"

definition overflowClient :: client where
  "overflowClient = closedClient\<lparr>timeoutConfig := overflowConfig\<rparr>"

definition overflowLog :: "event list" where
  "overflowLog =
     [Sleep 4611686019427387904, Attempt (Some rejection),
      Sleep 9223372038854775808, Attempt (Some rejection),
      Sleep 4000000000, Attempt (Some rejection), Sleep 4000000000, Attempt (Some rejection)]"

text \<open>An attempt that the server accepts.\<close>

definition acceptedAttempt :: attempt where
  "acceptedAttempt = \<lparr>Wake = TimerFired, World = acceptingWorld, ErrorsDrained = False\<rparr>"


section \<open>Properties\<close>

subsection \<open>Dial options\<close>

text \<open>
  Claim C10. For every argument of \<open>AddOption\<close> that is not a value of the function type
  \<open>func(*websocket.Dialer)\<close>, the call returns and leaves the dial-option list and every
  other field of the client as they were: the argument is silently discarded.
\<close>

theorem AddOption_not_dialer_func:
  "\<forall>f. option \<noteq> DialerFunc f \<Longrightarrow> AddOption option c = c"
  by (cases option) (auto simp: AddOption_def)

theorem AddOption_not_dialer_func_witness:
  "AddOption (OtherValue ''timeout=5'') (NewClient scenarioConfig) = NewClient scenarioConfig
   \<and> AddOption NilInterface (NewClient scenarioConfig) = NewClient scenarioConfig"
  using AddOption_not_dialer_func [of "OtherValue ''timeout=5''" "NewClient scenarioConfig"]
        AddOption_not_dialer_func [of NilInterface "NewClient scenarioConfig"]
  by simp

lemma alreadyExists_iff: "alreadyExists x xs = (x \<in> set xs)"
  by (induction xs) auto

lemma apply_options_append:
  "apply_options (os @ os') d =
     (case apply_options os d of None \<Rightarrow> None | Some d' \<Rightarrow> apply_options os' d')"
  by (induction os d rule: apply_options.induct) simp_all

lemma count_subProtocolOption:
  "count_list (Subprotocols d) x \<le> 1 \<Longrightarrow> count_list (Subprotocols (subProtocolOption x d)) x \<le> 1"
  by (auto simp: subProtocolOption_def alreadyExists_iff)

lemma apply_replicate_subProtocolOption:
  "count_list (Subprotocols d) x \<le> 1 \<Longrightarrow>
   \<exists>d'. apply_options (replicate n (Some (subProtocolOption x))) d = Some d' \<and>
        count_list (Subprotocols d') x \<le> 1"
proof (induction n arbitrary: d)
  case 0
  then show ?case by simp
next
  case (Suc n)
  from Suc.prems have "count_list (Subprotocols (subProtocolOption x d)) x \<le> 1"
    by (rule count_subProtocolOption)
  from Suc.IH [OF this] show ?case by simp
qed

lemma dialOptions_funpow:
  "dialOptions ((SetRequestedSubProtocol x ^^ n) c) =
     dialOptions c @ replicate n (Some (subProtocolOption x))"
  by (induction n) (simp_all add: SetRequestedSubProtocol_def AddOption_def replicate_append_same)

lemma timeoutConfig_funpow:
  "timeoutConfig ((SetRequestedSubProtocol x ^^ n) c) = timeoutConfig c"
  by (induction n) (simp_all add: SetRequestedSubProtocol_def AddOption_def)

lemma new_dialer_funpow:
  "new_dialer ((SetRequestedSubProtocol x ^^ n) c) = new_dialer c"
  by (simp add: new_dialer_def timeoutConfig_funpow)

text \<open>
  Repeating the setter on any client whose options already give at most one occurrence of
  the subprotocol keeps it so.
\<close>

lemma dedup_general:
  assumes "dialed_subprotocols c = Some ps" and "count_list ps x \<le> 1"
  shows "\<exists>ps'. dialed_subprotocols ((SetRequestedSubProtocol x ^^ n) c) = Some ps' \<and>
               count_list ps' x \<le> 1"
proof -
  from assms obtain d where d: "apply_options (dialOptions c) (new_dialer c) = Some d"
    "count_list (Subprotocols d) x \<le> 1"
    by (auto simp: dialed_subprotocols_def)
  from apply_replicate_subProtocolOption [OF d(2), of n] obtain d' where
    "apply_options (replicate n (Some (subProtocolOption x))) d = Some d'"
    "count_list (Subprotocols d') x \<le> 1" by blast
  then show ?thesis
    by (simp add: dialed_subprotocols_def dialOptions_funpow new_dialer_funpow
        apply_options_append d(1))
qed

text \<open>The sixth scenario of the spec: three calls, the subprotocol is listed once.\<close>

lemma dedup_scenario:
  "dialed_subprotocols ((SetRequestedSubProtocol ''ocpp1.6'' ^^ 3) (NewClient scenarioConfig))
     = Some [''ocpp1.6'']"
  by (simp add: dialed_subprotocols_def numeral_3_eq_3 SetRequestedSubProtocol_def
      AddOption_def NewClient_def new_dialer_def subProtocolOption_def)

text \<open>
  Claim C5. For every subprotocol \<open>x\<close> and every number \<open>n\<close> of calls of
  \<open>SetRequestedSubProtocol x\<close> on a new client (plain or TLS), applying the accumulated
  dial options to the fresh dialer of \<open>Start\<close> succeeds and gives a subprotocol list with
  at most one occurrence of \<open>x\<close>.
\<close>

theorem SetRequestedSubProtocol_dedup:
  "(\<exists>ps. dialed_subprotocols ((SetRequestedSubProtocol x ^^ n) (NewClient cfg)) = Some ps \<and>
         count_list ps x \<le> 1) \<and>
   (\<exists>ps. dialed_subprotocols ((SetRequestedSubProtocol x ^^ n) (NewTLSClient cfg tls)) = Some ps \<and>
         count_list ps x \<le> 1)"
proof
  have "dialed_subprotocols (NewClient cfg) = Some []"
    by (simp add: dialed_subprotocols_def NewClient_def new_dialer_def)
  then show "\<exists>ps. dialed_subprotocols ((SetRequestedSubProtocol x ^^ n) (NewClient cfg)) = Some ps \<and>
         count_list ps x \<le> 1"
    by (rule dedup_general) simp
next
  have "dialed_subprotocols (NewTLSClient cfg tls) = Some []"
    by (simp add: dialed_subprotocols_def NewTLSClient_def new_dialer_def)
  then show "\<exists>ps. dialed_subprotocols ((SetRequestedSubProtocol x ^^ n) (NewTLSClient cfg tls)) = Some ps \<and>
         count_list ps x \<le> 1"
    by (rule dedup_general) simp
qed

subsection \<open>The HTTP header\<close>

lemma canon_Authorization:
  "CanonicalMIMEHeaderKey ''Authorization'' = ''Authorization''"
  "CanonicalMIMEHeaderKey ''authorization'' = ''Authorization''"
  by code_simp+

text \<open>The encoder on the test vectors of RFC 4648.\<close>

lemma Encode_rfc4648:
  "EncodeToString ''foobar'' = ''Zm9vYmFy''"
  "EncodeToString ''fooba'' = ''Zm9vYmE=''"
  "EncodeToString ''foob'' = ''Zm9vYg==''"
  "EncodeToString [] = []"
  by (simp_all add: EncodeToString_def enc_def encodeStd_def)

lemma Encode_credentials:
  "EncodeToString ''Aladdin:open sesame'' = ''QWxhZGRpbjpvcGVuIHNlc2FtZQ==''"
  by (simp add: EncodeToString_def enc_def encodeStd_def)

lemma basic_auth_example:
  "Header_Get (header (SetBasicAuth ''Aladdin'' ''open sesame'' (NewClient scenarioConfig)))
     ''authorization'' = ''Basic QWxhZGRpbjpvcGVuIHNlc2FtZQ==''"
  by (simp add: SetBasicAuth_def Header_Set_def Header_Get_def canon_Authorization
      Encode_credentials)

text \<open>
  Claim C6. For every username and password, \<open>SetBasicAuth\<close> sets the header key
  \<open>Authorization\<close> to \<open>Basic\<close>, a space and the standard base64 encoding of
  \<open>username:password\<close>, whatever was stored there before; \<open>SetHeaderValue key val\<close>
  replaces whatever was stored for the key by the single value \<open>val\<close>.
\<close>

theorem SetBasicAuth_header:
  "header (SetBasicAuth username password c) ''Authorization'' =
     Some [''Basic '' @ EncodeToString (username @ '':'' @ password)] \<and>
   Header_Get (header (SetBasicAuth username password c)) ''Authorization'' =
     ''Basic '' @ EncodeToString (username @ '':'' @ password) \<and>
   header (SetHeaderValue key val c) (CanonicalMIMEHeaderKey key) = Some [val] \<and>
   Header_Get (header (SetHeaderValue key val c)) key = val"
  by (simp add: SetBasicAuth_def SetHeaderValue_def Header_Set_def Header_Get_def
      canon_Authorization)

subsection \<open>Start\<close>

text \<open>
  Claim C7. For every call of \<open>Start\<close> whose handshake fails (the URL parses, the dial
  options apply, the dial returns an error): when the server returned an HTTP response the
  result is the enriched error with the message of the dial error, the status text, the
  status code and the response body as details; when there is no response the result is the
  dial error as it is.
\<close>

theorem Start_handshake_failure:
  assumes "Parse w urlStr = Inr u"
    and "apply_options (dialOptions c) (new_dialer c) = Some dialer"
    and "Dial w dialer urlStr (header c) = DialFailed msg respO"
  shows "\<exists>c'. Start w urlStr c =
           Returns (Some (case respO of
                            None \<Rightarrow> ErrorString msg
                          | Some resp \<Rightarrow>
                              HttpError \<lparr>Message = msg, HttpStatus = Status resp,
                                         HttpCode = StatusCode resp,
                                         Details = (case Body resp of
                                                      None \<Rightarrow> []
                                                    | Some body \<Rightarrow> body)\<rparr>), c')"
  using assms
  by (auto simp: Start_def new_dialer_def Let_def split: option.splits)

theorem Start_handshake_failure_witness:
  "\<exists>c'. Start rejectingWorld ''ws://localhost:8887/ws/1234'' (NewClient scenarioConfig) =
     Returns (Some (HttpError \<lparr>Message = ''websocket: bad handshake'',
                               HttpStatus = ''401 Unauthorized'', HttpCode = 401,
                               Details = ''bad creds''\<rparr>), c')"
  using Start_handshake_failure [of rejectingWorld "''ws://localhost:8887/ws/1234''"
      "\<lparr>Path = ''/ws/1234'', url_String = ''ws://localhost:8887/ws/1234''\<rparr>"
      "NewClient scenarioConfig" "new_dialer (NewClient scenarioConfig)"
      "''websocket: bad handshake''"
      "Some \<lparr>Status = ''401 Unauthorized'', StatusCode = 401, TLS = None,
             Body = Some ''bad creds''\<rparr>"]
  by (simp add: rejectingWorld_def NewClient_def)

text \<open>A successful handshake on a new client gives the client with a live session.\<close>

lemma Start_accepting:
  "Start acceptingWorld ''ws://localhost:8887/ws/1234'' (NewClient scenarioConfig) =
     Returns (None, connectedClient)"
  by (simp add: Start_def acceptingWorld_def NewClient_def connectedClient_def new_dialer_def
      path_Base_def newWebSocket_def)

subsection \<open>Write and IsConnected\<close>

text \<open>
  Claim C8. For every payload, \<open>Write\<close> fails with the not-connected error and leaves the
  client (and so every queue) as it was whenever there is no session or the session's closed
  flag is set; otherwise it hands the payload to the session's write. \<open>IsConnected\<close> is
  false whenever there is no session.
\<close>

theorem Write_not_connected:
  "((webSocket c = None \<or> (\<exists>w. webSocket c = Some w \<and> ws_closed w)) \<longrightarrow>
      Write data c =
        (Some (ErrorString ''client is currently not connected, cannot send data''), c)) \<and>
   (\<forall>w. webSocket c = Some w \<and> \<not> ws_closed w \<longrightarrow>
      Write data c = (fst (ws_Write w data), c\<lparr>webSocket := Some (snd (ws_Write w data))\<rparr>)) \<and>
   (webSocket c = None \<longrightarrow> \<not> IsConnected c)"
  by (auto simp: Write_def IsConnected_def ws_IsConnected_def split: option.splits prod.splits)

theorem Write_not_connected_witness:
  "Write [CHR 0x01, CHR 0x02] (NewClient scenarioConfig) =
     (Some (ErrorString ''client is currently not connected, cannot send data''),
      NewClient scenarioConfig) \<and>
   Write [CHR 0x01, CHR 0x02] closedClient =
     (Some (ErrorString ''client is currently not connected, cannot send data''),
      closedClient) \<and>
   Write [CHR 0x01, CHR 0x02] connectedClient =
     (None, connectedClient\<lparr>webSocket :=
        Some ((newWebSocket ''1234'' 7 None 16)\<lparr>outQueue := [[CHR 0x01, CHR 0x02]]\<rparr>)\<rparr>) \<and>
   \<not> IsConnected (NewClient scenarioConfig)"
  using Write_not_connected [of "NewClient scenarioConfig" "[CHR 0x01, CHR 0x02]"]
        Write_not_connected [of closedClient "[CHR 0x01, CHR 0x02]"]
        Write_not_connected [of connectedClient "[CHR 0x01, CHR 0x02]"]
  by (simp add: NewClient_def closedClient_def connectedClient_def newWebSocket_def
      ws_Write_def)

subsection \<open>The error channel\<close>

text \<open>A subscribed client on which one error was reported holds that error in the buffer.\<close>

lemma fullClient_reachable:
  "error (ErrorString ''first'') subscribedClient = Returns fullClient"
  by (simp add: error_def chan_send_def subscribedClient_def fullClient_def Errors_def
      NewClient_def make_chan_def)

text \<open>
  Claim C2, as stated, fails: with one undelivered error in the buffer of capacity 1, the
  next call of \<open>error\<close> does not drop its error and return; it blocks.
\<close>

theorem error_full_blocks_counterexample:
  "errC fullClient = Some \<lparr>buf = [ErrorString ''first''], cap = 1, closed = False\<rparr> \<and>
   error (ErrorString ''second'') fullClient = Blocked"
  by (simp add: error_def chan_send_def fullClient_def)

text \<open>
  Claim C2, amended. While the error channel exists and is open, \<open>error\<close> is a plain
  channel send: when the buffer has room the error is appended to it and the call returns;
  when the buffer is full nothing is dropped and the sending task blocks.
\<close>

theorem error_send:
  "errC c = Some ch \<Longrightarrow> \<not> closed ch \<Longrightarrow>
   error err c =
     (if length (buf ch) < cap ch then Returns (c\<lparr>errC := Some (ch\<lparr>buf := buf ch @ [err]\<rparr>)\<rparr>)
      else Blocked)"
  by (simp add: error_def chan_send_def)

theorem error_send_witness:
  "error (ErrorString ''first'') subscribedClient = Returns fullClient \<and>
   error (ErrorString ''second'') fullClient = Blocked"
  using error_send [of subscribedClient "\<lparr>buf = [], cap = 1, closed = False\<rparr>"
                       "ErrorString ''first''"]
        error_send [of fullClient "\<lparr>buf = [ErrorString ''first''], cap = 1, closed = False\<rparr>"
                       "ErrorString ''second''"]
  by (simp add: subscribedClient_def fullClient_def Errors_def NewClient_def make_chan_def)

subsection \<open>Stop\<close>

text \<open>
  Claim C3, on the code. \<open>Stop\<close> on a client whose error channel is open and holds an
  undelivered error takes the receive case of its last \<open>select\<close>: the error is consumed
  and the channel is left open. When the buffer is empty \<open>Stop\<close> closes the channel, and a
  later call of \<open>error\<close> still sends on it, which panics.
\<close>

theorem Stop_buffered_error:
  "Stop None fullClient =
     Returns (fullClient\<lparr>reconnectC := Some \<lparr>buf = [()], cap = 1, closed = False\<rparr>,
                         errC := Some \<lparr>buf = [], cap = 1, closed = False\<rparr>\<rparr>) \<and>
   Stop None subscribedClient =
     Returns (subscribedClient\<lparr>reconnectC := Some \<lparr>buf = [()], cap = 1, closed = False\<rparr>,
                               errC := Some \<lparr>buf = [], cap = 1, closed = True\<rparr>\<rparr>) \<and>
   error (ErrorString ''late'')
     (subscribedClient\<lparr>reconnectC := Some \<lparr>buf = [()], cap = 1, closed = False\<rparr>,
                       errC := Some \<lparr>buf = [], cap = 1, closed = True\<rparr>\<rparr>) = Panic"
  by (simp add: Stop_def Stop_session_def Stop_reconnectC_def Stop_errC_def IsConnected_def
      recv_ready_def chan_send_def chan_recv_def error_def
      subscribedClient_def fullClient_def Errors_def NewClient_def make_chan_def)

text \<open>
  The last \<open>select\<close> of \<open>Stop\<close> on any open error channel: with an empty buffer the
  channel is closed, with a buffered error the oldest one is taken out and the channel stays
  open.
\<close>

lemma Stop_errC_empty:
  "errC c = Some ch \<Longrightarrow> buf ch = [] \<Longrightarrow> \<not> closed ch \<Longrightarrow>
   Stop_errC c = Returns (c\<lparr>errC := Some (ch\<lparr>closed := True\<rparr>)\<rparr>)"
  by (simp add: Stop_errC_def recv_ready_def)

lemma Stop_errC_buffered:
  "errC c = Some ch \<Longrightarrow> buf ch = e # es \<Longrightarrow>
   Stop_errC c = Returns (c\<lparr>errC := Some (ch\<lparr>buf := es\<rparr>)\<rparr>)"
  by (simp add: Stop_errC_def recv_ready_def chan_recv_def)

text \<open>
  The second \<open>select\<close> of \<open>Stop\<close> on any open interrupt channel of capacity 1: with an
  empty slot the interrupt is posted, with a pending interrupt that one is taken out.
\<close>

lemma Stop_reconnectC_empty:
  "reconnectC c = Some ch \<Longrightarrow> buf ch = [] \<Longrightarrow> \<not> closed ch \<Longrightarrow> cap ch = 1 \<Longrightarrow>
   Stop_reconnectC c = Returns (c\<lparr>reconnectC := Some (ch\<lparr>buf := [()]\<rparr>)\<rparr>)"
  by (simp add: Stop_reconnectC_def recv_ready_def chan_send_def)

lemma Stop_reconnectC_pending:
  "reconnectC c = Some ch \<Longrightarrow> buf ch = [()] \<Longrightarrow>
   Stop_reconnectC c = Returns (c\<lparr>reconnectC := Some (ch\<lparr>buf := []\<rparr>)\<rparr>)"
  by (simp add: Stop_reconnectC_def recv_ready_def chan_recv_def)

text \<open>\<open>Stop\<close> never puts more interrupts into the channel than its capacity.\<close>

lemma Stop_reconnectC_bound:
  assumes "reconnectC c = Some ch" and "length (buf ch) \<le> cap ch"
    and "Stop closeResult c = Returns c'"
  shows "\<exists>ch'. reconnectC c' = Some ch' \<and> cap ch' = cap ch \<and> length (buf ch') \<le> cap ch'"
  using assms
  by (auto simp: Stop_def Stop_session_def Stop_reconnectC_def Stop_errC_def error_def
      recv_ready_def chan_send_def chan_recv_def
      split: outcome.splits if_splits option.splits send_result.splits prod.splits list.splits)

text \<open>
  Claim C4, on the code. The first \<open>Stop\<close> on a new client posts an interrupt. The second
  \<open>Stop\<close> finds it pending, takes the receive case of the \<open>select\<close> and consumes it: the
  slot is empty again, as on a client that was never stopped.
\<close>

theorem Stop_twice:
  "Stop None (NewClient scenarioConfig) = Returns stoppedClient \<and>
   Stop None stoppedClient = Returns (NewClient scenarioConfig) \<and>
   reconnectC (NewClient scenarioConfig) = Some \<lparr>buf = [], cap = 1, closed = False\<rparr>"
  by (simp add: Stop_def Stop_session_def Stop_reconnectC_def Stop_errC_def IsConnected_def
      recv_ready_def chan_send_def chan_recv_def stoppedClient_def NewClient_def make_chan_def)

subsection \<open>The back-off of the reconnection loop\<close>

text \<open>
  The attempt counter below \<open>2 ^ 63\<close> reads as the number it counts, and a draw of
  \<open>rand.Intn (R + 1)\<close> that does not panic lies between \<open>0\<close> and \<open>R\<close>.
\<close>

lemma sint_of_nat_small: "k < 2 ^ 63 \<Longrightarrow> sint (word_of_nat k :: 64 word) = int k"
proof -
  assume "k < 2 ^ 63"
  then have "int k < 2 ^ 63" by (metis of_nat_less_iff of_nat_numeral of_nat_power)
  then show ?thesis
    by (simp add: signed_of_nat signed_take_bit_int_eq_self)
qed

lemma sint_succ_pos:
  fixes r :: "64 word"
  assumes "0 < sint (r + 1)"
  shows "sint (r + 1) = sint r + 1"
proof -
  have eq: "sint (r + 1) = signed_take_bit 63 (sint r + 1)"
    by (simp add: sint_word_add)
  have lo: "- (2 ^ 63) \<le> sint r" using sint_ge [of r] by simp
  have hi: "sint r < 2 ^ 63" using sint_lt [of r] by simp
  show ?thesis
  proof (cases "sint r + 1 < 2 ^ 63")
    case True
    with lo eq show ?thesis by (simp add: signed_take_bit_int_eq_self)
  next
    case False
    with hi have "sint r + 1 = 2 ^ 63" by simp
    with eq have "sint (r + 1) = signed_take_bit 63 (2 ^ 63 :: int)" by simp
    also have "\<dots> = - (2 ^ 63)" by (simp add: signed_take_bit_eq_take_bit_shift take_bit_eq_mod)
    finally show ?thesis using assms by simp
  qed
qed

lemma rand_Intn_range:
  assumes "rand_Intn (R + 1) raw = Some r"
  shows "\<exists>j. 0 \<le> j \<and> j \<le> sint R \<and> r = word_of_int j"
proof -
  from assms have pos: "0 < sint (R + 1)" and r: "r = word_of_nat (raw mod nat (sint (R + 1)))"
    by (auto simp: rand_Intn_def split: if_splits)
  from pos have s: "sint (R + 1) = sint R + 1" by (rule sint_succ_pos)
  let ?j = "int (raw mod nat (sint (R + 1)))"
  have "raw mod nat (sint (R + 1)) < nat (sint (R + 1))" using pos by simp
  then have "?j < sint (R + 1)" by arith
  with s have "0 \<le> ?j \<and> ?j \<le> sint R" by simp
  moreover have "r = word_of_int ?j" using r by simp
  ultimately show ?thesis by blast
qed

text \<open>
  An iteration after which the loop is still running: the attempt failed, the error was
  reported, and the next delay is the grown or the kept one. By induction, the timers of
  such a run obey the back-off law.
\<close>

lemma sleeps_append: "sleeps (xs @ ys) = sleeps xs @ sleeps ys"
  by (induction xs rule: sleeps.induct) simp_all

lemma Start_timeoutConfig:
  "Start w urlStr c = Returns (r, c1) \<Longrightarrow> timeoutConfig c1 = timeoutConfig c"
  by (auto simp: Start_def Let_def
      split: sum.splits option.splits dial_result.splits if_splits)

lemma error_timeoutConfig:
  "error e c = Returns c1 \<Longrightarrow> timeoutConfig c1 = timeoutConfig c"
  by (auto simp: error_def split: option.splits send_result.splits)

lemma drain_timeoutConfig: "timeoutConfig (drain c) = timeoutConfig c"
  by (simp add: drain_def)

lemma reconnect_loop_Cons_Running:
  assumes "reconnect_loop rnd (a # as) c delay n seed log = Running c' log'"
  shows "\<exists>c2 err delay' seed'.
           timeoutConfig c2 = timeoutConfig c \<and>
           reconnect_loop rnd as c2 delay' (n + 1) seed'
             (log @ [Sleep delay, Attempt (Some err)]) = Running c' log' \<and>
           (if sint n < sint (RetryBackOffRepeatTimes (timeoutConfig c))
            then \<exists>r. rand_Intn (RetryBackOffRandomRange (timeoutConfig c) + 1) (rnd seed) = Some r \<and>
                     delay' = delay * 2 + r * Second
            else delay' = delay)"
proof -
  from assms obtain err c1 where st: "Start (World a) (url_String (url c)) c = Returns (Some err, c1)"
    by (auto split: if_splits outcome.splits prod.splits option.splits)
  from assms st obtain c2 where er:
    "error (ReconnectionFailed err) (if ErrorsDrained a then drain c1 else c1) = Returns c2"
    by (auto split: if_splits outcome.splits prod.splits option.splits)
  have tc: "timeoutConfig c2 = timeoutConfig c"
    using Start_timeoutConfig [OF st] error_timeoutConfig [OF er]
    by (simp add: drain_timeoutConfig split: if_splits)
  show ?thesis
  proof (cases "sint n < sint (RetryBackOffRepeatTimes (timeoutConfig c))")
    case True
    with assms st er tc obtain r where
      "rand_Intn (RetryBackOffRandomRange (timeoutConfig c) + 1) (rnd seed) = Some r"
      "reconnect_loop rnd as c2 (delay * 2 + r * Second) (n + 1) (Suc seed)
         (log @ [Sleep delay, Attempt (Some err)]) = Running c' log'"
      by (auto split: if_splits option.splits)
    with True tc show ?thesis by auto
  next
    case False
    with assms st er tc have
      "reconnect_loop rnd as c2 delay (n + 1) seed
         (log @ [Sleep delay, Attempt (Some err)]) = Running c' log'"
      by (auto split: if_splits)
    with False tc show ?thesis by auto
  qed
qed

lemma reconnect_loop_law:
  assumes "reconnect_loop rnd as c delay (word_of_nat k) seed log = Running c' log'"
    and "k + length as \<le> 2 ^ 63"
  shows "\<exists>ds. sleeps log' = sleeps log @ ds \<and> length ds = length as \<and>
              (ds \<noteq> [] \<longrightarrow> hd ds = delay) \<and>
              backoff_law (sint (RetryBackOffRepeatTimes (timeoutConfig c)))
                (sint (RetryBackOffRandomRange (timeoutConfig c))) k ds"
  using assms
proof (induction as arbitrary: c delay k seed log)
  case Nil
  then show ?case by simp
next
  case (Cons a as)
  let ?N = "sint (RetryBackOffRepeatTimes (timeoutConfig c))"
  let ?R = "sint (RetryBackOffRandomRange (timeoutConfig c))"
  from reconnect_loop_Cons_Running [OF Cons.prems(1)] obtain c2 err delay' seed' where
    tc: "timeoutConfig c2 = timeoutConfig c" and
    rec: "reconnect_loop rnd as c2 delay' (word_of_nat k + 1) seed'
            (log @ [Sleep delay, Attempt (Some err)]) = Running c' log'" and
    step: "if sint (word_of_nat k :: 64 word) < ?N
           then \<exists>r. rand_Intn (RetryBackOffRandomRange (timeoutConfig c) + 1) (rnd seed) = Some r \<and>
                    delay' = delay * 2 + r * Second
           else delay' = delay"
    by blast
  from Cons.prems(2) have k: "k < 2 ^ 63" and k': "Suc k + length as \<le> 2 ^ 63" by simp_all
  have cnt: "sint (word_of_nat k :: 64 word) = int k" using k by (rule sint_of_nat_small)
  from rec have rec': "reconnect_loop rnd as c2 delay' (word_of_nat (Suc k)) seed'
            (log @ [Sleep delay, Attempt (Some err)]) = Running c' log'"
    by (simp add: add.commute)
  from Cons.IH [OF rec' k'] tc obtain ds where
    ds: "sleeps log' = sleeps (log @ [Sleep delay, Attempt (Some err)]) @ ds"
        "length ds = length as" "ds \<noteq> [] \<longrightarrow> hd ds = delay'"
        "backoff_law ?N ?R (Suc k) ds"
    by auto
  have law: "if int k < ?N then (\<exists>j. 0 \<le> j \<and> j \<le> ?R \<and> delay' = 2 * delay + word_of_int j * Second)
             else delay' = delay"
  proof (cases "int k < ?N")
    case True
    with step cnt obtain r where
      r: "rand_Intn (RetryBackOffRandomRange (timeoutConfig c) + 1) (rnd seed) = Some r"
         "delay' = delay * 2 + r * Second" by auto
    from rand_Intn_range [OF r(1)] obtain j where "0 \<le> j" "j \<le> ?R" "r = word_of_int j" by blast
    with r(2) True show ?thesis by (auto simp: mult.commute)
  next
    case False
    with step cnt show ?thesis by simp
  qed
  have "backoff_law ?N ?R k (delay # ds)"
  proof (cases ds)
    case Nil
    then show ?thesis by simp
  next
    case (Cons d' ds')
    with ds(3) have "d' = delay'" by simp
    with Cons law ds(4) show ?thesis by simp
  qed
  with ds show ?case
    by (intro exI [of _ "delay # ds"]) (simp add: sleeps_append)
qed

text \<open>The law read at a position of the list of delays.\<close>

lemma backoff_law_step:
  "backoff_law N R k ds \<Longrightarrow> Suc i < length ds \<Longrightarrow>
   (if int (k + i) < N
    then (\<exists>j. 0 \<le> j \<and> j \<le> R \<and> ds ! Suc i = 2 * ds ! i + word_of_int j * Second)
    else ds ! Suc i = ds ! i)"
proof (induction N R k ds arbitrary: i rule: backoff_law.induct)
  case (1 N R k d d' ds)
  show ?case
  proof (cases i)
    case 0
    with "1.prems" show ?thesis by simp
  next
    case (Suc i')
    from "1.prems" have "backoff_law N R (Suc k) (d' # ds)" and "Suc i' < length (d' # ds)"
      using Suc by simp_all
    from "1.IH" [OF this] show ?thesis using Suc by (auto split: if_splits)
  qed
qed simp_all

lemma backoff_law_const:
  assumes "backoff_law N R k ds" and "N \<le> int (k + i)"
  shows "i \<le> m \<Longrightarrow> m < length ds \<Longrightarrow> ds ! m = ds ! i"
proof (induction m)
  case 0
  then show ?case by simp
next
  case (Suc m)
  show ?case
  proof (cases "i = Suc m")
    case True
    then show ?thesis by simp
  next
    case False
    with Suc.prems have im: "i \<le> m" and m: "m < length ds" by simp_all
    from assms(2) im have "\<not> int (k + m) < N" by simp
    with backoff_law_step [OF assms(1) Suc.prems(2)] have "ds ! Suc m = ds ! m" by simp
    with Suc.IH [OF im m] show ?thesis by simp
  qed
qed

text \<open>
  The delays of a failing run as \<open>time.Duration\<close> values, with the equations of the
  64-bit arithmetic in which the loop computes them.
\<close>

lemma handleReconnection_backoff_words:
  assumes "handleReconnection rnd as c = Running c' log" and "length as < 2 ^ 63"
  shows "length (sleeps log) = length as \<and>
    (as \<noteq> [] \<longrightarrow>
       (\<exists>j. 0 \<le> j \<and> j \<le> sint (RetryBackOffRandomRange (timeoutConfig c)) \<and>
            delay_before log 1 =
              RetryBackOffWaitMinimum (timeoutConfig c) + word_of_int j * Second)) \<and>
    (\<forall>k. 2 \<le> k \<and> k \<le> length as \<and> int k \<le> sint (RetryBackOffRepeatTimes (timeoutConfig c)) \<longrightarrow>
       (\<exists>j. 0 \<le> j \<and> j \<le> sint (RetryBackOffRandomRange (timeoutConfig c)) \<and>
            delay_before log k = 2 * delay_before log (k - 1) + word_of_int j * Second)) \<and>
    (\<forall>k. 1 \<le> k \<and> k \<le> length as \<and> sint (RetryBackOffRepeatTimes (timeoutConfig c)) < int k \<longrightarrow>
       delay_before log k =
         delay_before log (max 1 (nat (sint (RetryBackOffRepeatTimes (timeoutConfig c))))))"
proof -
  let ?N = "sint (RetryBackOffRepeatTimes (timeoutConfig c))"
  let ?R = "sint (RetryBackOffRandomRange (timeoutConfig c))"
  let ?Min = "RetryBackOffWaitMinimum (timeoutConfig c)"
  from assms(1) obtain r where
    r: "rand_Intn (RetryBackOffRandomRange (timeoutConfig c) + 1) (rnd 0) = Some r" and
    loop: "reconnect_loop rnd as c (?Min + r * Second) (word_of_nat 1) 1 [] = Running c' log"
    by (auto simp: handleReconnection_def split: option.splits)
  from assms(2) have "1 + length as \<le> 2 ^ 63" by simp
  from reconnect_loop_law [OF loop this] obtain ds where
    ds: "sleeps log = ds" "length ds = length as" "ds \<noteq> [] \<longrightarrow> hd ds = ?Min + r * Second"
        "backoff_law ?N ?R 1 ds"
    by auto
  from rand_Intn_range [OF r] obtain j0 where j0: "0 \<le> j0" "j0 \<le> ?R" "r = word_of_int j0"
    by blast
  have first: "as \<noteq> [] \<longrightarrow>
       (\<exists>j. 0 \<le> j \<and> j \<le> ?R \<and> delay_before log 1 = ?Min + word_of_int j * Second)"
  proof
    assume "as \<noteq> []"
    with ds(2) have "ds \<noteq> []" by auto
    with ds(3) have "ds ! 0 = ?Min + r * Second" by (simp add: hd_conv_nth)
    with j0 ds(1) show "\<exists>j. 0 \<le> j \<and> j \<le> ?R \<and> delay_before log 1 = ?Min + word_of_int j * Second"
      by (auto simp: delay_before_def)
  qed
  have grow: "\<forall>k. 2 \<le> k \<and> k \<le> length as \<and> int k \<le> ?N \<longrightarrow>
       (\<exists>j. 0 \<le> j \<and> j \<le> ?R \<and>
            delay_before log k = 2 * delay_before log (k - 1) + word_of_int j * Second)"
  proof (intro allI impI)
    fix k assume k: "2 \<le> k \<and> k \<le> length as \<and> int k \<le> ?N"
    then obtain i where i: "k = Suc (Suc i)" by (metis Suc_le_D numeral_2_eq_2 Suc_le_mono)
    with k ds(2) have "Suc i < length ds" and "int (1 + i) < ?N" by simp_all
    with backoff_law_step [OF ds(4), of i] have
      "\<exists>j. 0 \<le> j \<and> j \<le> ?R \<and> ds ! Suc i = 2 * ds ! i + word_of_int j * Second" by simp
    with i ds(1) show "\<exists>j. 0 \<le> j \<and> j \<le> ?R \<and>
            delay_before log k = 2 * delay_before log (k - 1) + word_of_int j * Second"
      by (simp add: delay_before_def)
  qed
  have keep: "\<forall>k. 1 \<le> k \<and> k \<le> length as \<and> ?N < int k \<longrightarrow>
       delay_before log k = delay_before log (max 1 (nat ?N))"
  proof (intro allI impI)
    fix k assume k: "1 \<le> k \<and> k \<le> length as \<and> ?N < int k"
    let ?p = "max 1 (nat ?N)"
    from k have p: "?p \<le> k" by auto
    have "?N \<le> int (1 + (?p - 1))" by auto
    moreover from p have "?p - 1 \<le> k - 1" by (rule diff_le_mono)
    moreover from k ds(2) have "k - 1 < length ds" by auto
    ultimately have "ds ! (k - 1) = ds ! (?p - 1)"
      by (rule backoff_law_const [OF ds(4)])
    with ds(1) show "delay_before log k = delay_before log ?p"
      by (simp add: delay_before_def)
  qed
  from ds(1,2) first grow keep show ?thesis by simp
qed

text \<open>
  Where the exact sum does not leave the range of \<open>int64\<close>, a growth step of the law is the
  equation on the integers.
\<close>

lemma backoff_step_sint:
  fixes d d' :: Duration
  assumes "d' = 2 * d + word_of_int j * Second"
    and "- (2 ^ 63) \<le> 2 * sint d + j * 1000000000"
    and "2 * sint d + j * 1000000000 < 2 ^ 63"
  shows "sint d' = 2 * sint d + j * 1000000000"
proof -
  have "d' = word_of_int (2 * sint d + j * 1000000000)"
    using assms(1) by (simp add: Second_def)
  then have "sint d' = signed_take_bit 63 (2 * sint d + j * 1000000000)"
    by (simp only: sint_sbintrunc') simp
  with assms(2,3) show ?thesis
    by (simp add: signed_take_bit_int_eq_self)
qed

lemma sint_word_of_int_fits:
  "fits64 m \<Longrightarrow> sint (word_of_int m :: 64 word) = m"
  by (simp add: fits64_def sint_sbintrunc' signed_take_bit_int_eq_self)

lemma first_delay_sint:
  fixes Min :: Duration
  assumes "fits64 (sint Min + j * 1000000000)"
  shows "sint (Min + word_of_int j * Second) = sint Min + j * 1000000000"
proof -
  have "Min + word_of_int j * Second = word_of_int (sint Min + j * 1000000000)"
    by (simp add: Second_def)
  with sint_word_of_int_fits [OF assms] show ?thesis by simp
qed

lemma grown_delay_sint:
  fixes d :: Duration
  assumes "fits64 (2 * sint d + j * 1000000000)"
  shows "sint (2 * d + word_of_int j * Second) = 2 * sint d + j * 1000000000"
proof -
  have "2 * d + word_of_int j * Second = word_of_int (2 * sint d + j * 1000000000)"
    by (simp add: Second_def)
  with sint_word_of_int_fits [OF assms] show ?thesis by simp
qed

text \<open>
  Claim C1, as stated, fails where the doubling leaves the range of \<open>time.Duration\<close>:
  with a minimal back-off of \<open>2 ^ 62\<close> nanoseconds plus one second, no jitter and
  \<open>N = 3\<close>, the delay before the second attempt is not twice the delay before the first
  but a negative duration.
\<close>

lemma overflow_run:
  "handleReconnection noJitter [failingAttempt, failingAttempt, failingAttempt, failingAttempt]
     overflowClient = Running overflowClient overflowLog"
  by (simp add: handleReconnection_def rand_Intn_def overflowClient_def overflowConfig_def
      closedClient_def connectedClient_def noJitter_def
      NewClient_def scenarioConfig_def failingAttempt_def rejectingWorld_def Start_def
      error_def new_dialer_def Second_def make_chan_def rejection_def newWebSocket_def
      overflowLog_def)

theorem handleReconnection_overflow_counterexample:
  "handleReconnection noJitter [failingAttempt, failingAttempt, failingAttempt, failingAttempt]
     overflowClient = Running overflowClient overflowLog \<and>
   sint (RetryBackOffRandomRange (timeoutConfig overflowClient)) = 0 \<and>
   sint (RetryBackOffRepeatTimes (timeoutConfig overflowClient)) = 3 \<and>
   sint (delay_before overflowLog 1) = 4611686019427387904 \<and>
   sint (delay_before overflowLog 2) = - 9223372034854775808 \<and>
   sint (delay_before overflowLog 2) \<noteq> 2 * sint (delay_before overflowLog 1) + 0 * 1000000000"
  using overflow_run
  by (simp add: overflowLog_def delay_before_def overflowClient_def overflowConfig_def
      scenarioConfig_def)

text \<open>
  Claim C1, amended. In every run of \<open>handleReconnection\<close> in which all attempts so far
  have failed (the loop is still running after the given iterations, fewer than \<open>2 ^ 63\<close>,
  the range of the attempt counter), with \<open>N = RetryBackOffRepeatTimes\<close> and
  \<open>R = RetryBackOffRandomRange\<close>: one timer is armed per attempt; the delay before
  attempt 1 is \<open>RetryBackOffWaitMinimum\<close> plus \<open>j\<close> seconds for some \<open>j\<close> from \<open>0\<close> to
  \<open>R\<close>, and for \<open>2 \<le> k \<le> N\<close> the delay before attempt \<open>k\<close> is twice the delay before
  attempt \<open>k - 1\<close> plus \<open>j\<close> seconds for some \<open>j\<close> from \<open>0\<close> to \<open>R\<close>, both computed in
  the 64-bit nanoseconds of \<open>time.Duration\<close>: the sum is exact whenever it fits
  \<open>int64\<close>, and wraps modulo \<open>2 ^ 64\<close> otherwise; for \<open>k > N\<close> the delay is the delay
  before attempt \<open>N\<close> (before attempt 1 when \<open>N < 1\<close>).
\<close>

theorem handleReconnection_backoff:
  assumes "handleReconnection rnd as c = Running c' log" and "length as < 2 ^ 63"
  shows "length (sleeps log) = length as \<and>
    (as \<noteq> [] \<longrightarrow>
       (\<exists>j. 0 \<le> j \<and> j \<le> sint (RetryBackOffRandomRange (timeoutConfig c)) \<and>
            delay_before log 1 =
              RetryBackOffWaitMinimum (timeoutConfig c) + word_of_int j * Second \<and>
            (fits64 (sint (RetryBackOffWaitMinimum (timeoutConfig c)) + j * 1000000000) \<longrightarrow>
               sint (delay_before log 1) =
                 sint (RetryBackOffWaitMinimum (timeoutConfig c)) + j * 1000000000))) \<and>
    (\<forall>k. 2 \<le> k \<and> k \<le> length as \<and> int k \<le> sint (RetryBackOffRepeatTimes (timeoutConfig c)) \<longrightarrow>
       (\<exists>j. 0 \<le> j \<and> j \<le> sint (RetryBackOffRandomRange (timeoutConfig c)) \<and>
            delay_before log k = 2 * delay_before log (k - 1) + word_of_int j * Second \<and>
            (fits64 (2 * sint (delay_before log (k - 1)) + j * 1000000000) \<longrightarrow>
               sint (delay_before log k) =
                 2 * sint (delay_before log (k - 1)) + j * 1000000000))) \<and>
    (\<forall>k. 1 \<le> k \<and> k \<le> length as \<and> sint (RetryBackOffRepeatTimes (timeoutConfig c)) < int k \<longrightarrow>
       delay_before log k =
         delay_before log (max 1 (nat (sint (RetryBackOffRepeatTimes (timeoutConfig c))))))"
proof -
  note w = handleReconnection_backoff_words [OF assms]
  have first: "as \<noteq> [] \<longrightarrow>
       (\<exists>j. 0 \<le> j \<and> j \<le> sint (RetryBackOffRandomRange (timeoutConfig c)) \<and>
            delay_before log 1 =
              RetryBackOffWaitMinimum (timeoutConfig c) + word_of_int j * Second \<and>
            (fits64 (sint (RetryBackOffWaitMinimum (timeoutConfig c)) + j * 1000000000) \<longrightarrow>
               sint (delay_before log 1) =
                 sint (RetryBackOffWaitMinimum (timeoutConfig c)) + j * 1000000000))"
  proof
    assume "as \<noteq> []"
    with w obtain j where j: "0 \<le> j" "j \<le> sint (RetryBackOffRandomRange (timeoutConfig c))"
      "delay_before log 1 = RetryBackOffWaitMinimum (timeoutConfig c) + word_of_int j * Second"
      by blast
    from j(3) have "fits64 (sint (RetryBackOffWaitMinimum (timeoutConfig c)) + j * 1000000000) \<longrightarrow>
               sint (delay_before log 1) =
                 sint (RetryBackOffWaitMinimum (timeoutConfig c)) + j * 1000000000"
      by (simp add: first_delay_sint)
    with j show "\<exists>j. 0 \<le> j \<and> j \<le> sint (RetryBackOffRandomRange (timeoutConfig c)) \<and>
            delay_before log 1 =
              RetryBackOffWaitMinimum (timeoutConfig c) + word_of_int j * Second \<and>
            (fits64 (sint (RetryBackOffWaitMinimum (timeoutConfig c)) + j * 1000000000) \<longrightarrow>
               sint (delay_before log 1) =
                 sint (RetryBackOffWaitMinimum (timeoutConfig c)) + j * 1000000000)"
      by blast
  qed
  have grow: "\<forall>k. 2 \<le> k \<and> k \<le> length as \<and> int k \<le> sint (RetryBackOffRepeatTimes (timeoutConfig c)) \<longrightarrow>
       (\<exists>j. 0 \<le> j \<and> j \<le> sint (RetryBackOffRandomRange (timeoutConfig c)) \<and>
            delay_before log k = 2 * delay_before log (k - 1) + word_of_int j * Second \<and>
            (fits64 (2 * sint (delay_before log (k - 1)) + j * 1000000000) \<longrightarrow>
               sint (delay_before log k) =
                 2 * sint (delay_before log (k - 1)) + j * 1000000000))"
  proof (intro allI impI)
    fix k
    assume "2 \<le> k \<and> k \<le> length as \<and> int k \<le> sint (RetryBackOffRepeatTimes (timeoutConfig c))"
    with w obtain j where j: "0 \<le> j" "j \<le> sint (RetryBackOffRandomRange (timeoutConfig c))"
      "delay_before log k = 2 * delay_before log (k - 1) + word_of_int j * Second"
      by blast
    from j(3) have "fits64 (2 * sint (delay_before log (k - 1)) + j * 1000000000) \<longrightarrow>
               sint (delay_before log k) =
                 2 * sint (delay_before log (k - 1)) + j * 1000000000"
      by (simp add: grown_delay_sint)
    with j show "\<exists>j. 0 \<le> j \<and> j \<le> sint (RetryBackOffRandomRange (timeoutConfig c)) \<and>
            delay_before log k = 2 * delay_before log (k - 1) + word_of_int j * Second \<and>
            (fits64 (2 * sint (delay_before log (k - 1)) + j * 1000000000) \<longrightarrow>
               sint (delay_before log k) =
                 2 * sint (delay_before log (k - 1)) + j * 1000000000)"
      by blast
  qed
  from w first grow show ?thesis by blast
qed

theorem handleReconnection_backoff_witness:
  "handleReconnection noJitter [failingAttempt, failingAttempt, failingAttempt, failingAttempt]
     closedClient = Running closedClient scenarioLog \<and>
   length (sleeps scenarioLog) = 4 \<and>
   fits64 (sint (RetryBackOffWaitMinimum scenarioConfig) + 0 * 1000000000) \<and>
   sint (delay_before scenarioLog 1) = sint (RetryBackOffWaitMinimum scenarioConfig) + 0 * 1000000000 \<and>
   fits64 (2 * sint (delay_before scenarioLog 1) + 0 * 1000000000) \<and>
   sint (delay_before scenarioLog 2) = 2 * sint (delay_before scenarioLog 1) + 0 * 1000000000 \<and>
   fits64 (2 * sint (delay_before scenarioLog 2) + 0 * 1000000000) \<and>
   sint (delay_before scenarioLog 3) = 2 * sint (delay_before scenarioLog 2) + 0 * 1000000000 \<and>
   delay_before scenarioLog 4 = delay_before scenarioLog 3"
proof -
  have run: "handleReconnection noJitter
      [failingAttempt, failingAttempt, failingAttempt, failingAttempt] closedClient =
      Running closedClient scenarioLog"
    by (simp add: handleReconnection_def rand_Intn_def closedClient_def connectedClient_def
      NewClient_def scenarioConfig_def failingAttempt_def rejectingWorld_def Start_def
      error_def new_dialer_def Second_def make_chan_def rejection_def newWebSocket_def
      scenarioLog_def noJitter_def)
  have len: "length [failingAttempt, failingAttempt, failingAttempt, failingAttempt] < 2 ^ 63"
    by simp
  from handleReconnection_backoff [OF run len] run show ?thesis
    by (simp add: scenarioLog_def delay_before_def scenarioConfig_def Second_def fits64_def)
qed

text \<open>
  Failing runs of every length exist: against the rejecting server, a client without error
  subscription and without nil dial option, with a jitter range for which \<open>rand.Intn\<close> does
  not panic, is still in the loop after any number of attempts.
\<close>

lemma apply_options_total: "None \<notin> set os \<Longrightarrow> \<exists>d'. apply_options os d = Some d'"
  by (induction os d rule: apply_options.induct) simp_all

lemma Start_rejectingWorld:
  assumes "None \<notin> set (dialOptions c)"
  shows "\<exists>c1. Start rejectingWorld s c = Returns (Some rejection, c1) \<and>
              errC c1 = errC c \<and> dialOptions c1 = dialOptions c \<and>
              timeoutConfig c1 = timeoutConfig c"
proof -
  let ?c2 = "if reconnectC c = None
             then c\<lparr>url := \<lparr>Path = ''/ws/1234'', url_String = s\<rparr>, reconnectC := Some (make_chan 1)\<rparr>
             else c\<lparr>url := \<lparr>Path = ''/ws/1234'', url_String = s\<rparr>\<rparr>"
  from assms have "None \<notin> set (dialOptions ?c2)" by simp
  from apply_options_total [OF this, of "new_dialer ?c2"] obtain d where
    "apply_options (dialOptions ?c2) (new_dialer ?c2) = Some d" by blast
  then show ?thesis
    by (auto simp: Start_def rejectingWorld_def rejection_def Let_def split: if_splits)
qed

lemma reconnect_loop_progress:
  assumes "errC c = None" and "None \<notin> set (dialOptions c)"
    and "0 < sint (RetryBackOffRandomRange (timeoutConfig c) + 1)"
  shows "\<exists>c' log'. reconnect_loop rnd (replicate n failingAttempt) c delay k seed log =
                     Running c' log'"
  using assms
proof (induction n arbitrary: c delay k seed log)
  case 0
  then show ?case by simp
next
  case (Suc n)
  from Start_rejectingWorld [OF Suc.prems(2), of "url_String (url c)"] obtain c1 where
    c1: "Start rejectingWorld (url_String (url c)) c = Returns (Some rejection, c1)"
        "errC c1 = errC c" "dialOptions c1 = dialOptions c" "timeoutConfig c1 = timeoutConfig c"
    by blast
  with Suc.prems have er: "error (ReconnectionFailed rejection) c1 = Returns c1"
    by (simp add: error_def)
  from Suc.prems c1 have pre: "errC c1 = None" "None \<notin> set (dialOptions c1)"
    "0 < sint (RetryBackOffRandomRange (timeoutConfig c1) + 1)" by simp_all
  from pre(3) obtain r where
    r: "rand_Intn (RetryBackOffRandomRange (timeoutConfig c1) + 1) (rnd seed) = Some r"
    by (auto simp: rand_Intn_def)
  show ?case
  proof (cases "sint k < sint (RetryBackOffRepeatTimes (timeoutConfig c1))")
    case True
    from Suc.IH [OF pre, of "delay * 2 + r * Second" "k + 1" "Suc seed"
        "log @ [Sleep delay, Attempt (Some rejection)]"]
    show ?thesis using c1(1) er r True by (simp add: failingAttempt_def)
  next
    case False
    from Suc.IH [OF pre, of delay "k + 1" seed "log @ [Sleep delay, Attempt (Some rejection)]"]
    show ?thesis using c1(1) er False by (simp add: failingAttempt_def)
  qed
qed

lemma handleReconnection_progress:
  assumes "errC c = None" and "None \<notin> set (dialOptions c)"
    and "0 < sint (RetryBackOffRandomRange (timeoutConfig c) + 1)"
  shows "\<exists>c' log. handleReconnection rnd (replicate n failingAttempt) c = Running c' log"
proof -
  from assms(3) obtain r where
    "rand_Intn (RetryBackOffRandomRange (timeoutConfig c) + 1) (rnd 0) = Some r"
    by (auto simp: rand_Intn_def)
  with reconnect_loop_progress [OF assms] show ?thesis
    by (simp add: handleReconnection_def)
qed

subsection \<open>The disconnect path\<close>







text \<open>
  Without the \<open>Stop\<close>, the failure of a task of the same session does lead to a
  reconnection and to the reconnect callback.
\<close>

lemma failed_session_reconnects:
  "events (session_events noJitter
     [TaskFails (ErrorString ''read timeout''), DisconnectDelivered [acceptedAttempt]]
     handlersClient []) =
   [DisconnectedCallback 1 (Some (ErrorString ''read timeout'')), Sleep 1000000000,
    Attempt None, ReconnectedCallback 2]"
  by (simp add: take_notification_def ws_fail_def handleDisconnect_def handleReconnection_def
      rand_Intn_def handlersClient_def connectedClient_def NewClient_def scenarioConfig_def
      acceptedAttempt_def acceptingWorld_def Start_def new_dialer_def Second_def make_chan_def
      newWebSocket_def path_Base_def noJitter_def)


end
